theory Spec2Isabelle
  imports Main "HOL-Library.Word"
begin

section \<open>Pointer-like types\<close>

text \<open>
  \<open>nn<PtrType>\<close> decorates a pointer-like type. The three families of the standard
  library that the header names (\<open>nn<T*>\<close>, \<open>nn<unique_ptr<T>>\<close>, \<open>nn<shared_ptr<T>>\<close>)
  are modelled by one datatype. An address is a natural number and \<open>0\<close> is \<open>nullptr\<close>.
  A \<open>shared_ptr\<close> carries the control block it shares ownership through (\<open>None\<close> when it
  owns nothing) next to the pointer it stores; two shared pointers share ownership exactly
  when they name the same control block. Use counts are not modelled.
\<close>

type_synonym addr = nat

datatype std_ptr =
    Raw_ptr addr
  | Unique_ptr addr
  | Shared_ptr "nat option" addr

text \<open>The stored pointer: the pointer itself for \<open>T*\<close>, what \<open>get()\<close> returns otherwise.\<close>

fun stored :: "std_ptr \<Rightarrow> addr" where
  "stored (Raw_ptr a) = a"
| "stored (Unique_ptr a) = a"
| "stored (Shared_ptr c a) = a"

text \<open>Contextual conversion to \<open>bool\<close> (what \<open>!v\<close> negates): the stored pointer is not null.\<close>

definition std_to_bool :: "std_ptr \<Rightarrow> bool" where
  "std_to_bool p = (stored p \<noteq> 0)"

text \<open>
  Move construction \<open>PtrType q(std::move(p))\<close>: the new value and the state \<open>p\<close> is left in.
  Moving a raw pointer copies it; a moved-from \<open>unique_ptr\<close> holds \<open>nullptr\<close>; a moved-from
  \<open>shared_ptr\<close> is empty.
\<close>

fun std_move :: "std_ptr \<Rightarrow> std_ptr \<times> std_ptr" where
  "std_move (Raw_ptr a) = (Raw_ptr a, Raw_ptr a)"
| "std_move (Unique_ptr a) = (Unique_ptr a, Unique_ptr 0)"
| "std_move (Shared_ptr c a) = (Shared_ptr c a, Shared_ptr None 0)"

section \<open>The null check\<close>

record source_location =
  file_name :: string
  line :: nat
  column :: nat

datatype error = Runtime_error string | Bad_alloc

text \<open>Decimal rendering of an unsigned number, as \<open>operator<<\<close> writes it to the stream.\<close>

definition digit_char :: "nat \<Rightarrow> char" where
  "digit_char d = char_of (of_char (CHR ''0'') + d)"

fun show_nat :: "nat \<Rightarrow> string" where
  "show_nat n = (if n < 10 then [digit_char n] else show_nat (n div 10) @ [digit_char (n mod 10)])"

declare show_nat.simps [simp del]

text \<open>
  \<open>nn_detail::check(v, loc)\<close>: throws \<open>std::runtime_error\<close> when \<open>!v\<close>. The first argument is
  the contextual conversion to \<open>bool\<close> of the template parameter \<open>T\<close>.
\<close>

definition check :: "('t \<Rightarrow> bool) \<Rightarrow> 't \<Rightarrow> source_location \<Rightarrow> error + unit" where
  "check to_bool v loc =
     (if \<not> to_bool v
      then Inl (Runtime_error (''nn check failed at '' @ show_nat (line loc) @ '':''
                  @ show_nat (column loc) @ '' of '' @ file_name loc))
      else Inr ())"

section \<open>The handle\<close>

record 'p nn =
  ptr :: 'p

text \<open>\<open>explicit nn(const PtrType& arg, loc) : ptr(arg) { check(ptr, loc); }\<close>\<close>

definition nn_ctor :: "('p \<Rightarrow> bool) \<Rightarrow> 'p \<Rightarrow> source_location \<Rightarrow> error + 'p nn" where
  "nn_ctor to_bool arg loc =
     (let this = \<lparr>ptr = arg\<rparr>
      in case check to_bool (ptr this) loc of
           Inl e \<Rightarrow> Inl e
         | Inr _ \<Rightarrow> Inr this)"

text \<open>
  \<open>explicit nn(PtrType&& arg, loc) : ptr(std::move(arg)) { check(ptr, loc); }\<close>, with the
  state the caller's \<open>arg\<close> is left in as second component.
\<close>

definition nn_ctor_move :: "std_ptr \<Rightarrow> source_location \<Rightarrow> (error + std_ptr nn) \<times> std_ptr" where
  "nn_ctor_move arg loc =
     (let (p, arg') = std_move arg;
          this = \<lparr>ptr = p\<rparr>
      in case check std_to_bool (ptr this) loc of
           Inl e \<Rightarrow> (Inl e, arg')
         | Inr _ \<Rightarrow> (Inr this, arg'))"

subsection \<open>Access to the wrapped value\<close>

text \<open>
  Objects live in a memory of bounded capacity; the object at address \<open>a\<close> (addresses
  start at 1) is the \<open>a\<close>-th one allocated. Reading through a null or dangling address is
  undefined behaviour, modelled as \<open>None\<close>.
\<close>

record 'a memory =
  objects :: "'a list"
  capacity :: nat

definition heap_lookup :: "'a memory \<Rightarrow> addr \<Rightarrow> 'a option" where
  "heap_lookup m a =
     (if 0 < a \<and> a \<le> length (objects m) then Some (objects m ! (a - 1)) else None)"

text \<open>\<open>element_type& operator*() const { return *ptr; }\<close>\<close>

definition deref :: "'a memory \<Rightarrow> std_ptr nn \<Rightarrow> 'a option" where
  "deref m this = heap_lookup m (stored (ptr this))"

text \<open>\<open>operator const PtrType&() const& { return ptr; }\<close>\<close>

definition operator_const_ref :: "'p nn \<Rightarrow> 'p" where
  "operator_const_ref this = ptr this"

text \<open>
  \<open>operator PtrType&&() && { return std::move(ptr); }\<close>, followed by the caller's
  initialisation of a \<open>PtrType\<close> from the returned rvalue reference (the by-value move
  conversion). The second component is the handle afterwards.
\<close>

definition operator_rvalue :: "std_ptr nn \<Rightarrow> std_ptr \<times> std_ptr nn" where
  "operator_rvalue this = (let (p, rest) = std_move (ptr this) in (p, this\<lparr>ptr := rest\<rparr>))"

text \<open>\<open>const PtrType& as_nullable() const& { return ptr; }\<close>\<close>

definition as_nullable :: "'p nn \<Rightarrow> 'p" where
  "as_nullable this = ptr this"

text \<open>\<open>PtrType&& as_nullable() && { return std::move(ptr); }\<close>, consumed by value as above.\<close>

definition as_nullable_rvalue :: "std_ptr nn \<Rightarrow> std_ptr \<times> std_ptr nn" where
  "as_nullable_rvalue this = (let (p, rest) = std_move (ptr this) in (p, this\<lparr>ptr := rest\<rparr>))"

text \<open>
  The member call \<open>p.get()\<close> on the wrapped value. The smart pointers return their stored
  pointer. A raw pointer is not of class type and has no member \<open>get\<close>: the call is
  ill-formed, which is \<open>None\<close> here.
\<close>

fun member_get :: "std_ptr \<Rightarrow> addr option" where
  "member_get (Raw_ptr a) = None"
| "member_get (Unique_ptr a) = Some a"
| "member_get (Shared_ptr c a) = Some a"

text \<open>
  \<open>template <typename T = PtrType> element_type* get() const { return ptr.get(); }\<close>.
  Being a member template, its body is only instantiated where \<open>get\<close> is called.
\<close>

definition get :: "std_ptr nn \<Rightarrow> addr option" where
  "get this = member_get (ptr this)"

subsection \<open>Type-converting constructors\<close>

text \<open>
  The four converting constructors of \<open>nn<PtrType>\<close> from \<open>nn<OtherType>\<close> are enabled by
  \<open>requires\<close> clauses over three type traits of the pair of types:
  \<open>std::is_constructible_v<PtrType, OtherType>\<close> (construction from an rvalue \<open>OtherType\<close>),
  \<open>std::is_convertible_v<OtherType, PtrType>\<close> and \<open>std::is_pointer_v<OtherType>\<close>.
  No clause tests \<open>std::is_constructible_v<PtrType, const OtherType&>\<close>, but the body of the
  copy constructors needs it; it is the fourth field.
\<close>

record traits =
  is_constructible :: bool
  is_convertible :: bool
  is_pointer :: bool
  is_constructible_const_ref :: bool

datatype converting_ctor = Explicit_copy | Explicit_move | Implicit_copy | Implicit_move

fun requires_clause :: "traits \<Rightarrow> converting_ctor \<Rightarrow> bool" where
  "requires_clause t Explicit_copy = (is_constructible t \<and> \<not> is_convertible t)"
| "requires_clause t Explicit_move = (is_constructible t \<and> \<not> is_convertible t \<and> \<not> is_pointer t)"
| "requires_clause t Implicit_copy = is_convertible t"
| "requires_clause t Implicit_move = (is_convertible t \<and> \<not> is_pointer t)"

text \<open>Which of the four are declared \<open>explicit\<close>.\<close>

fun is_explicit :: "converting_ctor \<Rightarrow> bool" where
  "is_explicit Explicit_copy = True"
| "is_explicit Explicit_move = True"
| "is_explicit Implicit_copy = False"
| "is_explicit Implicit_move = False"

text \<open>Which take \<open>nn<OtherType>&&\<close> (the others take \<open>const nn<OtherType>&\<close>).\<close>

fun takes_rvalue_ref :: "converting_ctor \<Rightarrow> bool" where
  "takes_rvalue_ref Explicit_copy = False"
| "takes_rvalue_ref Explicit_move = True"
| "takes_rvalue_ref Implicit_copy = False"
| "takes_rvalue_ref Implicit_move = True"

datatype value_category = Lvalue | Rvalue

text \<open>
  A constructor is viable, in the sense of overload resolution, for a source handle of the
  given value category when its \<open>requires\<close> clause holds and its parameter binds: an rvalue
  reference binds rvalues only, a const lvalue reference binds both. Viability looks at the
  declaration only; it does not say that the body can be instantiated.
\<close>

definition viable :: "traits \<Rightarrow> value_category \<Rightarrow> converting_ctor \<Rightarrow> bool" where
  "viable t cat c = (requires_clause t c \<and> (takes_rvalue_ref c \<longrightarrow> cat = Rvalue))"

text \<open>
  Overload resolution among the four for the initialisation \<open>nn<PtrType> x(source)\<close>. For an
  rvalue source a viable \<open>nn<OtherType>&&\<close> constructor is the better match than a
  \<open>const nn<OtherType>&\<close> one; the \<open>requires\<close> clauses of the explicit and the implicit
  constructor of one kind exclude each other.
\<close>

definition selected :: "traits \<Rightarrow> value_category \<Rightarrow> converting_ctor option" where
  "selected t cat =
     (if viable t cat Explicit_move then Some Explicit_move
      else if viable t cat Implicit_move then Some Implicit_move
      else if viable t cat Explicit_copy then Some Explicit_copy
      else if viable t cat Implicit_copy then Some Implicit_copy
      else None)"

text \<open>
  Whether the member initialiser of a constructor is well-formed. The copy constructors are
  \<open>ptr(other.operator const OtherType&())\<close>, which builds \<open>PtrType\<close> from a
  \<open>const OtherType&\<close>; the move constructors are
  \<open>ptr(std::move(other).operator OtherType&&())\<close>, which builds it from an rvalue.
\<close>

fun body_well_formed :: "traits \<Rightarrow> converting_ctor \<Rightarrow> bool" where
  "body_well_formed t Explicit_copy = is_constructible_const_ref t"
| "body_well_formed t Implicit_copy = is_constructible_const_ref t"
| "body_well_formed t Explicit_move = is_constructible t"
| "body_well_formed t Implicit_move = is_constructible t"

text \<open>
  The initialisation of an \<open>nn<PtrType>\<close> from a source \<open>nn<OtherType>\<close> compiles when a
  constructor is selected and its body is well-formed.
\<close>

definition constructs :: "traits \<Rightarrow> value_category \<Rightarrow> bool" where
  "constructs t cat =
     (case selected t cat of None \<Rightarrow> False | Some c \<Rightarrow> body_well_formed t c)"

text \<open>
  The bodies. Both copy constructors are \<open>ptr(other.operator const OtherType&())\<close>; the first
  argument is the constructor of \<open>PtrType\<close> from a \<open>const OtherType&\<close>.
\<close>

definition nn_converting_copy :: "('b \<Rightarrow> 'a) \<Rightarrow> 'b nn \<Rightarrow> 'a nn" where
  "nn_converting_copy construct other = \<lparr>ptr = construct (operator_const_ref other)\<rparr>"

text \<open>
  Both move constructors are \<open>ptr(std::move(other).operator OtherType&&())\<close>; the first
  argument is the constructor of \<open>PtrType\<close> from an \<open>OtherType&&\<close>, which also says what is
  left in the source. The second component is the source handle afterwards.
\<close>

definition nn_converting_move :: "('b \<Rightarrow> 'a \<times> 'b) \<Rightarrow> 'b nn \<Rightarrow> 'a nn \<times> 'b nn" where
  "nn_converting_move construct other =
     (let (p, rest) = construct (ptr other) in (\<lparr>ptr = p\<rparr>, other\<lparr>ptr := rest\<rparr>))"

subsection \<open>Comparisons\<close>

text \<open>
  The base comparisons forward to the comparison of the wrapped types, which is the first
  argument: \<open>l.ptr == r\<close>, \<open>l == r.ptr\<close>, \<open>l.ptr == r.ptr\<close>, and the same for \<open><\<close>.
\<close>

definition eq_nn_R :: "('l \<Rightarrow> 'r \<Rightarrow> bool) \<Rightarrow> 'l nn \<Rightarrow> 'r \<Rightarrow> bool" where
  "eq_nn_R eq l r = eq (ptr l) r"

definition eq_L_nn :: "('l \<Rightarrow> 'r \<Rightarrow> bool) \<Rightarrow> 'l \<Rightarrow> 'r nn \<Rightarrow> bool" where
  "eq_L_nn eq l r = eq l (ptr r)"

definition eq_nn_nn :: "('l \<Rightarrow> 'r \<Rightarrow> bool) \<Rightarrow> 'l nn \<Rightarrow> 'r nn \<Rightarrow> bool" where
  "eq_nn_nn eq l r = eq (ptr l) (ptr r)"

definition lt_nn_R :: "('l \<Rightarrow> 'r \<Rightarrow> bool) \<Rightarrow> 'l nn \<Rightarrow> 'r \<Rightarrow> bool" where
  "lt_nn_R lt l r = lt (ptr l) r"

definition lt_L_nn :: "('l \<Rightarrow> 'r \<Rightarrow> bool) \<Rightarrow> 'l \<Rightarrow> 'r nn \<Rightarrow> bool" where
  "lt_L_nn lt l r = lt l (ptr r)"

definition lt_nn_nn :: "('l \<Rightarrow> 'r \<Rightarrow> bool) \<Rightarrow> 'l nn \<Rightarrow> 'r nn \<Rightarrow> bool" where
  "lt_nn_nn lt l r = lt (ptr l) (ptr r)"

text \<open>
  \<open>NN_DERIVED_OPERATORS(>, r < l)\<close>: in each shape the body \<open>r < l\<close> is the base \<open><\<close> of
  the mirrored shape, on the wrapped types in the order \<open>R\<close>, \<open>L\<close>.
\<close>

definition gt_nn_R :: "('r \<Rightarrow> 'l \<Rightarrow> bool) \<Rightarrow> 'l nn \<Rightarrow> 'r \<Rightarrow> bool" where
  "gt_nn_R lt l r = lt_L_nn lt r l"

definition gt_L_nn :: "('r \<Rightarrow> 'l \<Rightarrow> bool) \<Rightarrow> 'l \<Rightarrow> 'r nn \<Rightarrow> bool" where
  "gt_L_nn lt l r = lt_nn_R lt r l"

definition gt_nn_nn :: "('r \<Rightarrow> 'l \<Rightarrow> bool) \<Rightarrow> 'l nn \<Rightarrow> 'r nn \<Rightarrow> bool" where
  "gt_nn_nn lt l r = lt_nn_nn lt r l"

text \<open>\<open>NN_DERIVED_OPERATORS(<=, !(l > r))\<close>\<close>

definition le_nn_R :: "('r \<Rightarrow> 'l \<Rightarrow> bool) \<Rightarrow> 'l nn \<Rightarrow> 'r \<Rightarrow> bool" where
  "le_nn_R lt l r = (\<not> gt_nn_R lt l r)"

definition le_L_nn :: "('r \<Rightarrow> 'l \<Rightarrow> bool) \<Rightarrow> 'l \<Rightarrow> 'r nn \<Rightarrow> bool" where
  "le_L_nn lt l r = (\<not> gt_L_nn lt l r)"

definition le_nn_nn :: "('r \<Rightarrow> 'l \<Rightarrow> bool) \<Rightarrow> 'l nn \<Rightarrow> 'r nn \<Rightarrow> bool" where
  "le_nn_nn lt l r = (\<not> gt_nn_nn lt l r)"

text \<open>\<open>NN_DERIVED_OPERATORS(>=, !(l < r))\<close>\<close>

definition ge_nn_R :: "('l \<Rightarrow> 'r \<Rightarrow> bool) \<Rightarrow> 'l nn \<Rightarrow> 'r \<Rightarrow> bool" where
  "ge_nn_R lt l r = (\<not> lt_nn_R lt l r)"

definition ge_L_nn :: "('l \<Rightarrow> 'r \<Rightarrow> bool) \<Rightarrow> 'l \<Rightarrow> 'r nn \<Rightarrow> bool" where
  "ge_L_nn lt l r = (\<not> lt_L_nn lt l r)"

definition ge_nn_nn :: "('l \<Rightarrow> 'r \<Rightarrow> bool) \<Rightarrow> 'l nn \<Rightarrow> 'r nn \<Rightarrow> bool" where
  "ge_nn_nn lt l r = (\<not> lt_nn_nn lt l r)"

text \<open>\<open>NN_DERIVED_OPERATORS(!=, !(l == r))\<close>\<close>

definition ne_nn_R :: "('l \<Rightarrow> 'r \<Rightarrow> bool) \<Rightarrow> 'l nn \<Rightarrow> 'r \<Rightarrow> bool" where
  "ne_nn_R eq l r = (\<not> eq_nn_R eq l r)"

definition ne_L_nn :: "('l \<Rightarrow> 'r \<Rightarrow> bool) \<Rightarrow> 'l \<Rightarrow> 'r nn \<Rightarrow> bool" where
  "ne_L_nn eq l r = (\<not> eq_L_nn eq l r)"

definition ne_nn_nn :: "('l \<Rightarrow> 'r \<Rightarrow> bool) \<Rightarrow> 'l nn \<Rightarrow> 'r nn \<Rightarrow> bool" where
  "ne_nn_nn eq l r = (\<not> eq_nn_nn eq l r)"

text \<open>
  Equality and order of the standard pointer types compare the stored pointers.
\<close>

definition std_eq :: "std_ptr \<Rightarrow> std_ptr \<Rightarrow> bool" where
  "std_eq p q = (stored p = stored q)"

definition std_lt :: "std_ptr \<Rightarrow> std_ptr \<Rightarrow> bool" where
  "std_lt p q = (stored p < stored q)"

subsection \<open>Hashing\<close>

text \<open>
  \<open>std::hash<nn<T>>::operator()(obj)\<close> is \<open>std::hash<T>{}(obj.as_nullable())\<close>; the first
  argument is \<open>std::hash<T>\<close>, and \<open>size_t\<close> is 64 bits wide.
\<close>

definition hash_nn :: "('t \<Rightarrow> 64 word) \<Rightarrow> 't nn \<Rightarrow> 64 word" where
  "hash_nn hash_T obj = hash_T (as_nullable obj)"

subsection \<open>Factories\<close>

text \<open>
  \<open>new T(v)\<close>: the allocator either throws \<open>std::bad_alloc\<close> or returns the address of a
  fresh object, which is never null.
\<close>

definition allocate :: "'a \<Rightarrow> 'a memory \<Rightarrow> error + (addr \<times> 'a memory)" where
  "allocate v m =
     (if length (objects m) < capacity m
      then Inr (Suc (length (objects m)), m\<lparr>objects := objects m @ [v]\<rparr>)
      else Inl Bad_alloc)"

definition make_unique :: "'a \<Rightarrow> 'a memory \<Rightarrow> error + (std_ptr \<times> 'a memory)" where
  "make_unique v m =
     (case allocate v m of Inl e \<Rightarrow> Inl e | Inr (a, m') \<Rightarrow> Inr (Unique_ptr a, m'))"

text \<open>The control block of \<open>make_shared\<close> is allocated with the object and named after it.\<close>

definition make_shared :: "'a \<Rightarrow> 'a memory \<Rightarrow> error + (std_ptr \<times> 'a memory)" where
  "make_shared v m =
     (case allocate v m of Inl e \<Rightarrow> Inl e | Inr (a, m') \<Rightarrow> Inr (Shared_ptr (Some a) a, m'))"

text \<open>
  \<open>nn_make_unique<T>(args)\<close> is \<open>nn_unique_ptr<T>(std::make_unique<T>(args))\<close>: the checked
  constructor from an rvalue, at the source location \<open>loc\<close> of that expression.
\<close>

definition nn_make_unique ::
  "source_location \<Rightarrow> 'a \<Rightarrow> 'a memory \<Rightarrow> error + (std_ptr nn \<times> 'a memory)" where
  "nn_make_unique loc v m =
     (case make_unique v m of
        Inl e \<Rightarrow> Inl e
      | Inr (p, m') \<Rightarrow>
          (case fst (nn_ctor_move p loc) of Inl e \<Rightarrow> Inl e | Inr h \<Rightarrow> Inr (h, m')))"

definition nn_make_shared ::
  "source_location \<Rightarrow> 'a \<Rightarrow> 'a memory \<Rightarrow> error + (std_ptr nn \<times> 'a memory)" where
  "nn_make_shared loc v m =
     (case make_shared v m of
        Inl e \<Rightarrow> Inl e
      | Inr (p, m') \<Rightarrow>
          (case fst (nn_ctor_move p loc) of Inl e \<Rightarrow> Inl e | Inr h \<Rightarrow> Inr (h, m')))"

subsection \<open>Dynamic cast\<close>

text \<open>
  \<open>dynamic_cast<T*>(p)\<close>: a null pointer stays null; otherwise the result is \<open>p\<close> when the
  object at \<open>p\<close> is a \<open>T\<close> (its dynamic type is \<open>T\<close> or derives from it, the run-time type
  test \<open>is_T\<close>) and null when it is not. A dangling \<open>p\<close> is undefined behaviour (\<open>None\<close>).
\<close>

definition dynamic_cast :: "('a \<Rightarrow> bool) \<Rightarrow> 'a memory \<Rightarrow> addr \<Rightarrow> addr option" where
  "dynamic_cast is_T m p =
     (if p = 0 then Some 0
      else case heap_lookup m p of
             None \<Rightarrow> None
           | Some obj \<Rightarrow> Some (if is_T obj then p else 0))"

text \<open>
  The aliasing constructor \<open>shared_ptr<T>(const shared_ptr<Y>& r, element_type* p)\<close>: shares
  ownership with \<open>r\<close> and stores \<open>p\<close>. It exists for a \<open>shared_ptr\<close> owner only.
\<close>

fun aliasing :: "std_ptr \<Rightarrow> addr \<Rightarrow> std_ptr option" where
  "aliasing (Shared_ptr c a) p = Some (Shared_ptr c p)"
| "aliasing (Raw_ptr a) p = None"
| "aliasing (Unique_ptr a) p = None"

text \<open>
  \<open>nn_dynamic_pointer_cast<T>(org_ptr)\<close>, for \<open>org_ptr\<close> an \<open>nn_shared_ptr<U>\<close> taken by const
  reference. The result is a plain \<open>shared_ptr<T>\<close>; \<open>nullptr\<close> converts to the empty one.
\<close>

definition nn_dynamic_pointer_cast ::
  "('a \<Rightarrow> bool) \<Rightarrow> 'a memory \<Rightarrow> std_ptr nn \<Rightarrow> std_ptr option" where
  "nn_dynamic_pointer_cast is_T m org_ptr =
     (case get org_ptr of
        None \<Rightarrow> None
      | Some g \<Rightarrow>
          (case dynamic_cast is_T m g of
             None \<Rightarrow> None
           | Some raw_ptr \<Rightarrow>
               if \<not> (raw_ptr \<noteq> 0) then Some (Shared_ptr None 0)
               else aliasing (as_nullable org_ptr) raw_ptr))"

text \<open>
  The two-argument constructor \<open>nn(const nn<OtherType>& ownership_ptr,
  nn<element_type*> target_ptr) : ptr(ownership_ptr.operator const OtherType&(), target_ptr)\<close>,
  over the aliasing constructor of \<open>shared_ptr\<close>. The target is a handle over a raw pointer,
  which converts to that pointer. \<open>None\<close> where the arguments are of other types or
  \<open>PtrType\<close> has no such constructor, and this one is not instantiated.
\<close>

definition nn_ctor_aliasing :: "std_ptr nn \<Rightarrow> std_ptr nn \<Rightarrow> std_ptr nn option" where
  "nn_ctor_aliasing ownership_ptr target_ptr =
     (case operator_const_ref target_ptr of
        Raw_ptr target \<Rightarrow>
          (case aliasing (operator_const_ref ownership_ptr) target of
             None \<Rightarrow> None
           | Some p \<Rightarrow> Some \<lparr>ptr = p\<rparr>)
      | Unique_ptr _ \<Rightarrow> None
      | Shared_ptr _ _ \<Rightarrow> None)"

section \<open>Properties\<close>

subsection \<open>Auxiliary facts\<close>

lemma show_nat_12: "show_nat 12 = ''12''"
  by code_simp

lemma show_nat_5: "show_nat 5 = ''5''"
  by code_simp

lemma std_move_fst: "fst (std_move p) = p"
  by (cases p) simp_all

lemma moved_from_non_null:
  "std_to_bool p \<Longrightarrow> std_to_bool (snd (std_move p)) \<longleftrightarrow> (\<exists>x. p = Raw_ptr x)"
  by (cases p) (simp_all add: std_to_bool_def)

lemma nn_ctor_Inr: "nn_ctor to_bool a loc = Inr h \<Longrightarrow> h = \<lparr>ptr = a\<rparr> \<and> to_bool a"
  by (auto simp: nn_ctor_def check_def split: if_splits)

lemma nn_ctor_move_Inr:
  "fst (nn_ctor_move a loc) = Inr h \<Longrightarrow> h = \<lparr>ptr = a\<rparr> \<and> std_to_bool a"
  using std_move_fst [of a]
  by (cases "std_move a") (auto simp: nn_ctor_move_def check_def split: if_splits)

lemma nn_ctor_ok: "to_bool a \<Longrightarrow> nn_ctor to_bool a loc = Inr \<lparr>ptr = a\<rparr>"
  by (simp add: nn_ctor_def check_def)

lemma nn_ctor_move_ok: "std_to_bool a \<Longrightarrow> fst (nn_ctor_move a loc) = Inr \<lparr>ptr = a\<rparr>"
  using std_move_fst [of a]
  by (cases "std_move a") (simp add: nn_ctor_move_def check_def)

lemma rvalue_fst: "fst (operator_rvalue h) = ptr h" "fst (as_nullable_rvalue h) = ptr h"
  using std_move_fst [of "ptr h"]
  by (cases "std_move (ptr h)"; simp add: operator_rvalue_def as_nullable_rvalue_def)+

lemma rvalue_snd:
  "ptr (snd (operator_rvalue h)) = snd (std_move (ptr h))"
  "ptr (snd (as_nullable_rvalue h)) = snd (std_move (ptr h))"
  by (cases "std_move (ptr h)"; simp add: operator_rvalue_def as_nullable_rvalue_def)+

lemma all_ctor:
  "(\<forall>c. P c) \<longleftrightarrow> P Explicit_copy \<and> P Explicit_move \<and> P Implicit_copy \<and> P Implicit_move"
  by (metis converting_ctor.exhaust)

lemma selected_Lvalue:
  "selected t Lvalue =
     (if is_constructible t \<and> \<not> is_convertible t then Some Explicit_copy
      else if is_convertible t then Some Implicit_copy else None)"
  by (simp add: selected_def viable_def)

lemma selected_Rvalue:
  "selected t Rvalue =
     (if is_constructible t \<and> \<not> is_convertible t \<and> \<not> is_pointer t then Some Explicit_move
      else if is_convertible t \<and> \<not> is_pointer t then Some Implicit_move
      else if is_constructible t \<and> \<not> is_convertible t then Some Explicit_copy
      else if is_convertible t then Some Implicit_copy else None)"
  by (simp add: selected_def viable_def)

lemma selected_viable: "selected t cat = Some c \<Longrightarrow> viable t cat c"
  by (simp add: selected_def split: if_splits)

subsection \<open>Checked construction\<close>

text \<open>
  C1. The checked single-argument constructor, in both its overloads: a null-equivalent
  argument makes it throw the runtime error whose message names the line, column and file
  of the construction site, and no handle is produced; a non-null argument yields a handle
  that stores exactly that argument.
\<close>

theorem nn_ctor_null_rejected:
  "(\<not> to_bool v \<longrightarrow>
      nn_ctor to_bool v loc =
        Inl (Runtime_error (''nn check failed at '' @ show_nat (line loc) @ '':''
               @ show_nat (column loc) @ '' of '' @ file_name loc)))
   \<and> (to_bool v \<longrightarrow> nn_ctor to_bool v loc = Inr \<lparr>ptr = v\<rparr>)
   \<and> (\<not> std_to_bool w \<longrightarrow>
      fst (nn_ctor_move w loc) =
        Inl (Runtime_error (''nn check failed at '' @ show_nat (line loc) @ '':''
               @ show_nat (column loc) @ '' of '' @ file_name loc)))
   \<and> (std_to_bool w \<longrightarrow> fst (nn_ctor_move w loc) = Inr \<lparr>ptr = w\<rparr>)"
proof -
  obtain p q where m: "std_move w = (p, q)" by (cases "std_move w")
  have p: "p = w" using std_move_fst [of w] m by simp
  show ?thesis
    by (simp add: nn_ctor_def nn_ctor_move_def check_def m p)
qed

theorem nn_ctor_null_rejected_witness:
  "nn_ctor std_to_bool (Shared_ptr None 0) \<lparr>file_name = ''main.cpp'', line = 12, column = 5\<rparr>
     = Inl (Runtime_error ''nn check failed at 12:5 of main.cpp'')
   \<and> nn_ctor std_to_bool (Raw_ptr 7) \<lparr>file_name = ''main.cpp'', line = 12, column = 5\<rparr>
     = Inr \<lparr>ptr = Raw_ptr 7\<rparr>
   \<and> fst (nn_ctor_move (Unique_ptr 0) \<lparr>file_name = ''main.cpp'', line = 12, column = 5\<rparr>)
     = Inl (Runtime_error ''nn check failed at 12:5 of main.cpp'')
   \<and> fst (nn_ctor_move (Unique_ptr 5) \<lparr>file_name = ''main.cpp'', line = 12, column = 5\<rparr>)
     = Inr \<lparr>ptr = Unique_ptr 5\<rparr>"
  using nn_ctor_null_rejected [of std_to_bool "Shared_ptr None 0"
          "\<lparr>file_name = ''main.cpp'', line = 12, column = 5\<rparr>" "Unique_ptr 0"]
        nn_ctor_null_rejected [of std_to_bool "Raw_ptr 7"
          "\<lparr>file_name = ''main.cpp'', line = 12, column = 5\<rparr>" "Unique_ptr 5"]
  by (simp add: std_to_bool_def show_nat_12 show_nat_5)

subsection \<open>The non-null invariant\<close>

text \<open>
  C2, as stated, fails after a move conversion: a handle over a \<open>unique_ptr\<close> that passed
  the check holds \<open>nullptr\<close> once its value has been moved out through
  \<open>operator PtrType&&\<close>.
\<close>

theorem moved_from_handle_is_null:
  "fst (nn_ctor_move (Unique_ptr 1) \<lparr>file_name = ''t.cpp'', line = 5, column = 3\<rparr>)
     = Inr \<lparr>ptr = Unique_ptr 1\<rparr>
   \<and> operator_rvalue \<lparr>ptr = Unique_ptr 1\<rparr> = (Unique_ptr 1, \<lparr>ptr = Unique_ptr 0\<rparr>)
   \<and> \<not> std_to_bool (ptr (snd (operator_rvalue \<lparr>ptr = Unique_ptr 1\<rparr>)))"
  by (simp add: nn_ctor_move_def check_def std_to_bool_def operator_rvalue_def)

text \<open>
  C2, amended. A handle produced by either checked constructor stores a non-null value;
  the conversions by const reference and \<open>as_nullable\<close> expose that non-null value; a
  type-converting copy or move constructor and the aliasing constructor, which run no
  check, build a non-null handle from it whenever the underlying construction keeps
  non-null values non-null; and a move conversion hands out the non-null value and leaves
  the source handle non-null exactly when it wraps a raw pointer: over a \<open>unique_ptr\<close> or a
  \<open>shared_ptr\<close> the moved-from handle stores the null-equivalent value.
\<close>

theorem non_null_invariant:
  assumes "nn_ctor std_to_bool a loc = Inr h \<or> fst (nn_ctor_move a loc) = Inr h"
  shows "std_to_bool (ptr h)
       \<and> std_to_bool (operator_const_ref h)
       \<and> std_to_bool (as_nullable h)
       \<and> std_to_bool (fst (operator_rvalue h))
       \<and> std_to_bool (fst (as_nullable_rvalue h))
       \<and> (std_to_bool (ptr (snd (operator_rvalue h))) \<longleftrightarrow> (\<exists>x. ptr h = Raw_ptr x))
       \<and> (std_to_bool (ptr (snd (as_nullable_rvalue h))) \<longleftrightarrow> (\<exists>x. ptr h = Raw_ptr x))
       \<and> ((\<forall>p. to_bool_A (construct p) = std_to_bool p)
            \<longrightarrow> to_bool_A (ptr (nn_converting_copy construct h)))
       \<and> ((\<forall>p. to_bool_A (fst (construct_mv p)) = std_to_bool p)
            \<longrightarrow> to_bool_A (ptr (fst (nn_converting_move construct_mv h))))
       \<and> (\<forall>owner r. nn_ctor_aliasing owner h = Some r \<longrightarrow> std_to_bool (ptr r))"
proof -
  have nz: "std_to_bool (ptr h)"
    using assms nn_ctor_Inr [of std_to_bool a loc h] nn_ctor_move_Inr [of a loc h] by auto
  have mv: "fst (nn_converting_move construct_mv h) = \<lparr>ptr = fst (construct_mv (ptr h))\<rparr>"
    by (cases "construct_mv (ptr h)") (simp add: nn_converting_move_def)
  have al: "nn_ctor_aliasing owner h = Some r \<Longrightarrow> std_to_bool (ptr r)" for owner r
    using nz by (cases "ptr owner"; cases "ptr h")
      (auto simp: nn_ctor_aliasing_def operator_const_ref_def std_to_bool_def)
  show ?thesis
    using nz al moved_from_non_null [OF nz]
    by (simp add: operator_const_ref_def as_nullable_def rvalue_fst rvalue_snd mv
        nn_converting_copy_def)
qed

theorem non_null_invariant_witness:
  "fst (nn_ctor_move (Shared_ptr (Some 3) 3) \<lparr>file_name = ''t.cpp'', line = 6, column = 2\<rparr>)
     = Inr \<lparr>ptr = Shared_ptr (Some 3) 3\<rparr>
   \<and> std_to_bool (as_nullable \<lparr>ptr = Shared_ptr (Some 3) 3\<rparr>)
   \<and> std_to_bool (fst (operator_rvalue \<lparr>ptr = Shared_ptr (Some 3) 3\<rparr>))
   \<and> \<not> std_to_bool (ptr (snd (operator_rvalue \<lparr>ptr = Shared_ptr (Some 3) 3\<rparr>)))
   \<and> std_to_bool (ptr (nn_converting_copy (\<lambda>p. p) \<lparr>ptr = Shared_ptr (Some 3) 3\<rparr>))
   \<and> nn_ctor std_to_bool (Raw_ptr 3) \<lparr>file_name = ''t.cpp'', line = 6, column = 2\<rparr>
     = Inr \<lparr>ptr = Raw_ptr 3\<rparr>
   \<and> nn_ctor_aliasing \<lparr>ptr = Shared_ptr (Some 9) 9\<rparr> \<lparr>ptr = Raw_ptr 3\<rparr>
       = Some \<lparr>ptr = Shared_ptr (Some 9) 3\<rparr>
   \<and> std_to_bool (ptr \<lparr>ptr = Shared_ptr (Some 9) 3\<rparr>)"
proof -
  let ?L = "\<lparr>file_name = ''t.cpp'', line = 6, column = 2\<rparr>"
  let ?h = "\<lparr>ptr = Shared_ptr (Some 3) 3\<rparr>"
  let ?t = "\<lparr>ptr = Raw_ptr 3\<rparr>"
  have a: "fst (nn_ctor_move (Shared_ptr (Some 3) 3) ?L) = Inr ?h"
    by (simp add: nn_ctor_move_def check_def std_to_bool_def)
  have b: "nn_ctor std_to_bool (Raw_ptr 3) ?L = Inr ?t"
    by (simp add: nn_ctor_def check_def std_to_bool_def)
  have c: "\<forall>p. std_to_bool ((\<lambda>p. p) p) = std_to_bool p"
    by simp
  have d: "\<forall>p. std_to_bool (fst (std_move p)) = std_to_bool p"
    by (simp add: std_move_fst)
  have e: "nn_ctor_aliasing \<lparr>ptr = Shared_ptr (Some 9) 9\<rparr> ?t = Some \<lparr>ptr = Shared_ptr (Some 9) 3\<rparr>"
    by (simp add: nn_ctor_aliasing_def operator_const_ref_def)
  have al: "\<forall>owner r. nn_ctor_aliasing owner ?t = Some r \<longrightarrow> std_to_bool (ptr r)"
    using non_null_invariant [where a = "Raw_ptr 3" and loc = ?L and h = ?t
        and to_bool_A = std_to_bool and construct = "\<lambda>p. p" and construct_mv = std_move] b
    by blast
  have f: "std_to_bool (ptr \<lparr>ptr = Shared_ptr (Some 9) 3\<rparr>)"
    using al e by blast
  have g: "std_to_bool (as_nullable ?h)
      \<and> std_to_bool (fst (operator_rvalue ?h))
      \<and> \<not> std_to_bool (ptr (snd (operator_rvalue ?h)))
      \<and> std_to_bool (ptr (nn_converting_copy (\<lambda>p. p) ?h))"
    using non_null_invariant [where a = "Shared_ptr (Some 3) 3" and loc = ?L and h = ?h
        and to_bool_A = std_to_bool and construct = "\<lambda>p. p" and construct_mv = std_move] a c
    by simp
  from a g b e f show ?thesis by simp
qed

subsection \<open>Comparisons\<close>

text \<open>
  C3. For handles built from \<open>a\<close> and \<open>b\<close>, \<open>==\<close> and \<open><\<close> give what the wrapped types'
  \<open>==\<close> and \<open><\<close> give on \<open>a\<close> and \<open>b\<close>, in the shapes handle/handle, handle/raw and
  raw/handle; and in each shape \<open>!=\<close> is the negation of \<open>==\<close>, \<open>>\<close> is \<open><\<close> with the
  operands swapped, \<open><=\<close> is the negation of \<open>>\<close> and \<open>>=\<close> is the negation of \<open><\<close>.
\<close>

theorem comparison_transparent:
  assumes "nn_ctor to_bool_L a loc_a = Inr ha" and "nn_ctor to_bool_R b loc_b = Inr hb"
  shows "(eq_nn_nn eq ha hb \<longleftrightarrow> eq a b)
       \<and> (eq_nn_R eq ha b \<longleftrightarrow> eq a b)
       \<and> (eq_L_nn eq a hb \<longleftrightarrow> eq a b)
       \<and> (lt_nn_nn lt ha hb \<longleftrightarrow> lt a b)
       \<and> (lt_nn_R lt ha b \<longleftrightarrow> lt a b)
       \<and> (lt_L_nn lt a hb \<longleftrightarrow> lt a b)
       \<and> (ne_nn_nn eq ha hb \<longleftrightarrow> \<not> eq_nn_nn eq ha hb)
       \<and> (ne_nn_R eq ha b \<longleftrightarrow> \<not> eq_nn_R eq ha b)
       \<and> (ne_L_nn eq a hb \<longleftrightarrow> \<not> eq_L_nn eq a hb)
       \<and> (gt_nn_nn lt' ha hb \<longleftrightarrow> lt_nn_nn lt' hb ha)
       \<and> (gt_nn_R lt' ha b \<longleftrightarrow> lt_L_nn lt' b ha)
       \<and> (gt_L_nn lt' a hb \<longleftrightarrow> lt_nn_R lt' hb a)
       \<and> (le_nn_nn lt' ha hb \<longleftrightarrow> \<not> gt_nn_nn lt' ha hb)
       \<and> (le_nn_R lt' ha b \<longleftrightarrow> \<not> gt_nn_R lt' ha b)
       \<and> (le_L_nn lt' a hb \<longleftrightarrow> \<not> gt_L_nn lt' a hb)
       \<and> (ge_nn_nn lt ha hb \<longleftrightarrow> \<not> lt_nn_nn lt ha hb)
       \<and> (ge_nn_R lt ha b \<longleftrightarrow> \<not> lt_nn_R lt ha b)
       \<and> (ge_L_nn lt a hb \<longleftrightarrow> \<not> lt_L_nn lt a hb)"
proof -
  have ha: "ptr ha = a" using assms(1) nn_ctor_Inr by fastforce
  have hb: "ptr hb = b" using assms(2) nn_ctor_Inr by fastforce
  show ?thesis
    by (simp add: ha hb eq_nn_nn_def eq_nn_R_def eq_L_nn_def lt_nn_nn_def lt_nn_R_def lt_L_nn_def
        ne_nn_nn_def ne_nn_R_def ne_L_nn_def gt_nn_nn_def gt_nn_R_def gt_L_nn_def
        le_nn_nn_def le_nn_R_def le_L_nn_def ge_nn_nn_def ge_nn_R_def ge_L_nn_def)
qed

theorem comparison_transparent_witness:
  "nn_ctor std_to_bool (Raw_ptr 3) \<lparr>file_name = ''t.cpp'', line = 1, column = 1\<rparr>
     = Inr \<lparr>ptr = Raw_ptr 3\<rparr>
   \<and> nn_ctor std_to_bool (Raw_ptr 8) \<lparr>file_name = ''t.cpp'', line = 2, column = 1\<rparr>
     = Inr \<lparr>ptr = Raw_ptr 8\<rparr>
   \<and> \<not> eq_nn_nn std_eq \<lparr>ptr = Raw_ptr 3\<rparr> \<lparr>ptr = Raw_ptr 8\<rparr>
   \<and> lt_nn_R std_lt \<lparr>ptr = Raw_ptr 3\<rparr> (Raw_ptr 8)
   \<and> ne_L_nn std_eq (Raw_ptr 3) \<lparr>ptr = Raw_ptr 8\<rparr>
   \<and> \<not> gt_nn_nn std_lt \<lparr>ptr = Raw_ptr 3\<rparr> \<lparr>ptr = Raw_ptr 8\<rparr>
   \<and> le_nn_R std_lt \<lparr>ptr = Raw_ptr 3\<rparr> (Raw_ptr 8)
   \<and> \<not> ge_L_nn std_lt (Raw_ptr 3) \<lparr>ptr = Raw_ptr 8\<rparr>"
proof -
  have a: "nn_ctor std_to_bool (Raw_ptr 3) \<lparr>file_name = ''t.cpp'', line = 1, column = 1\<rparr>
             = Inr \<lparr>ptr = Raw_ptr 3\<rparr>"
    by (simp add: nn_ctor_def check_def std_to_bool_def)
  have b: "nn_ctor std_to_bool (Raw_ptr 8) \<lparr>file_name = ''t.cpp'', line = 2, column = 1\<rparr>
             = Inr \<lparr>ptr = Raw_ptr 8\<rparr>"
    by (simp add: nn_ctor_def check_def std_to_bool_def)
  show ?thesis
    using comparison_transparent [OF a b, of std_eq std_lt std_lt] a b
    by (simp add: std_eq_def std_lt_def eq_nn_nn_def lt_nn_R_def lt_nn_nn_def lt_L_nn_def
        eq_L_nn_def)
qed

subsection \<open>Dynamic cast\<close>

text \<open>
  C4. For a non-null handle over a \<open>shared_ptr\<close> whose referent is alive,
  \<open>nn_dynamic_pointer_cast<T>\<close> returns a plain \<open>shared_ptr\<close> that is non-null exactly when
  the referent is a \<open>T\<close>; on success it stores the referent's address and has the control
  block of the original, on failure it is the empty pointer. The handle is read through a
  const reference: the operation returns no updated handle.
\<close>

theorem dynamic_cast_sound:
  assumes "ptr org = Shared_ptr c a" and "std_to_bool (ptr org)" and "heap_lookup m a = Some obj"
  shows "\<exists>r. nn_dynamic_pointer_cast is_T m org = Some r
           \<and> (std_to_bool r \<longleftrightarrow> is_T obj)
           \<and> (is_T obj \<longrightarrow> r = Shared_ptr c a)
           \<and> (\<not> is_T obj \<longrightarrow> r = Shared_ptr None 0)"
  using assms
  by (simp add: nn_dynamic_pointer_cast_def get_def dynamic_cast_def as_nullable_def std_to_bool_def)

theorem dynamic_cast_sound_witness:
  "nn_dynamic_pointer_cast (\<lambda>cls. cls = ''Derived'' \<or> cls = ''MoreDerived'')
      \<lparr>objects = [''Base'', ''MoreDerived''], capacity = 4\<rparr> \<lparr>ptr = Shared_ptr (Some 2) 2\<rparr>
     = Some (Shared_ptr (Some 2) 2)
   \<and> nn_dynamic_pointer_cast (\<lambda>cls. cls = ''Derived'' \<or> cls = ''MoreDerived'')
      \<lparr>objects = [''Base'', ''MoreDerived''], capacity = 4\<rparr> \<lparr>ptr = Shared_ptr (Some 1) 1\<rparr>
     = Some (Shared_ptr None 0)"
proof -
  let ?m = "\<lparr>objects = [''Base'', ''MoreDerived''], capacity = 4\<rparr>"
  let ?T = "\<lambda>cls. cls = ''Derived'' \<or> cls = ''MoreDerived''"
  have a: "ptr \<lparr>ptr = Shared_ptr (Some 2) 2\<rparr> = Shared_ptr (Some 2) 2" by simp
  have b: "std_to_bool (ptr \<lparr>ptr = Shared_ptr (Some 2) 2\<rparr>)" by (simp add: std_to_bool_def)
  have c: "heap_lookup ?m 2 = Some ''MoreDerived''" by (simp add: heap_lookup_def)
  have a': "ptr \<lparr>ptr = Shared_ptr (Some 1) 1\<rparr> = Shared_ptr (Some 1) 1" by simp
  have b': "std_to_bool (ptr \<lparr>ptr = Shared_ptr (Some 1) 1\<rparr>)" by (simp add: std_to_bool_def)
  have c': "heap_lookup ?m 1 = Some ''Base''" by (simp add: heap_lookup_def)
  show ?thesis
    using dynamic_cast_sound [OF a b c, of ?T] dynamic_cast_sound [OF a' b' c', of ?T]
    by auto
qed

subsection \<open>Factories\<close>

text \<open>
  C5. \<open>nn_make_unique\<close> and \<open>nn_make_shared\<close> never end in the runtime error of the null
  check; whenever the allocation succeeds they return a handle over the fresh address,
  which is non-null, and dereferencing that handle yields the value the object was built
  from.
\<close>

theorem factories_never_fail_check:
  "nn_make_unique loc v m \<noteq> Inl (Runtime_error msg)
   \<and> nn_make_shared loc v m \<noteq> Inl (Runtime_error msg)
   \<and> (allocate v m = Inr (a, m') \<longrightarrow>
        nn_make_unique loc v m = Inr (\<lparr>ptr = Unique_ptr a\<rparr>, m')
      \<and> std_to_bool (Unique_ptr a)
      \<and> deref m' \<lparr>ptr = Unique_ptr a\<rparr> = Some v
      \<and> nn_make_shared loc v m = Inr (\<lparr>ptr = Shared_ptr (Some a) a\<rparr>, m')
      \<and> std_to_bool (Shared_ptr (Some a) a)
      \<and> deref m' \<lparr>ptr = Shared_ptr (Some a) a\<rparr> = Some v)"
proof -
  have u: "fst (nn_ctor_move (Unique_ptr (Suc n)) loc) = Inr \<lparr>ptr = Unique_ptr (Suc n)\<rparr>" for n
    by (rule nn_ctor_move_ok) (simp add: std_to_bool_def)
  have s: "fst (nn_ctor_move (Shared_ptr (Some (Suc n)) (Suc n)) loc)
             = Inr \<lparr>ptr = Shared_ptr (Some (Suc n)) (Suc n)\<rparr>" for n
    by (rule nn_ctor_move_ok) (simp add: std_to_bool_def)
  show ?thesis
    by (auto simp: nn_make_unique_def nn_make_shared_def make_unique_def make_shared_def
        allocate_def u s std_to_bool_def deref_def heap_lookup_def nth_append
        split: if_splits)
qed

theorem factories_never_fail_check_witness:
  "allocate (42::int) \<lparr>objects = [], capacity = 8\<rparr> = Inr (1, \<lparr>objects = [42], capacity = 8\<rparr>)
   \<and> nn_make_unique \<lparr>file_name = ''nn.hpp'', line = 269, column = 10\<rparr> (42::int)
        \<lparr>objects = [], capacity = 8\<rparr>
      = Inr (\<lparr>ptr = Unique_ptr 1\<rparr>, \<lparr>objects = [42], capacity = 8\<rparr>)
   \<and> deref \<lparr>objects = [42::int], capacity = 8\<rparr> \<lparr>ptr = Unique_ptr 1\<rparr> = Some 42"
proof -
  have a: "allocate (42::int) \<lparr>objects = [], capacity = 8\<rparr>
             = Inr (1, \<lparr>objects = [42], capacity = 8\<rparr>)"
    by (simp add: allocate_def)
  show ?thesis
    using factories_never_fail_check [of "\<lparr>file_name = ''nn.hpp'', line = 269, column = 10\<rparr>"
        "42::int" "\<lparr>objects = [], capacity = 8\<rparr>" "[]" 1 "\<lparr>objects = [42], capacity = 8\<rparr>"] a
    by simp
qed

subsection \<open>Type-converting construction\<close>

text \<open>
  C6, as stated, puts copy construction at plain constructibility, and fails for a move-only
  wrapped type. For \<open>nn<unique_ptr<Base>>\<close> from an lvalue \<open>nn<unique_ptr<Derived>>\<close> the
  wrapped type is constructible and implicitly convertible, so the implicit copy
  constructor is the one selected, but its body builds a \<open>unique_ptr\<close> from a const
  reference and is ill-formed: the handle cannot be copy-constructed.
\<close>

theorem copy_from_move_only_handle:
  "is_constructible \<lparr>is_constructible = True, is_convertible = True, is_pointer = False,
       is_constructible_const_ref = False\<rparr>
   \<and> selected \<lparr>is_constructible = True, is_convertible = True, is_pointer = False,
       is_constructible_const_ref = False\<rparr> Lvalue = Some Implicit_copy
   \<and> \<not> body_well_formed \<lparr>is_constructible = True, is_convertible = True, is_pointer = False,
       is_constructible_const_ref = False\<rparr> Implicit_copy
   \<and> \<not> constructs \<lparr>is_constructible = True, is_convertible = True, is_pointer = False,
       is_constructible_const_ref = False\<rparr> Lvalue"
  by (simp add: constructs_def selected_Lvalue)

text \<open>
  C6, amended. For traits as pointer-like types have them (implicit convertibility and
  constructibility from a const reference each entail constructibility, and for a raw
  pointer \<open>OtherType\<close> constructibility entails constructibility from a const reference),
  an \<open>nn<PtrType>\<close> can be constructed from an lvalue \<open>nn<OtherType>\<close> exactly when \<open>PtrType\<close> is constructible from a
  \<open>const OtherType&\<close>, and from an rvalue exactly when \<open>PtrType\<close> is constructible from
  \<open>OtherType\<close>; a move constructor is the one selected exactly when the source is an rvalue,
  \<open>PtrType\<close> is constructible from \<open>OtherType\<close> and \<open>OtherType\<close> is not a raw pointer; every
  viable constructor, so the selected one, is explicit exactly when \<open>OtherType\<close> is not
  implicitly convertible; and the constructors build the handle from whatever the source
  holds, with no error outcome.
\<close>

theorem converting_ctor_policy:
  assumes "is_convertible t \<longrightarrow> is_constructible t"
    and "is_constructible_const_ref t \<longrightarrow> is_constructible t"
    and "is_pointer t \<and> is_constructible t \<longrightarrow> is_constructible_const_ref t"
  shows "(constructs t Lvalue \<longleftrightarrow> is_constructible_const_ref t)
       \<and> (constructs t Rvalue \<longleftrightarrow> is_constructible t)
       \<and> ((\<exists>c. selected t cat = Some c \<and> takes_rvalue_ref c)
            \<longleftrightarrow> cat = Rvalue \<and> is_constructible t \<and> \<not> is_pointer t)
       \<and> (\<forall>c. selected t cat = Some c \<longrightarrow> viable t cat c)
       \<and> (\<forall>c. viable t cat c \<longrightarrow> (is_explicit c \<longleftrightarrow> \<not> is_convertible t))
       \<and> (\<forall>c. viable t cat c \<and> takes_rvalue_ref c \<longrightarrow> \<not> is_pointer t)
       \<and> nn_converting_copy construct other = \<lparr>ptr = construct (ptr other)\<rparr>
       \<and> fst (nn_converting_move construct_mv other) = \<lparr>ptr = fst (construct_mv (ptr other))\<rparr>"
proof -
  have 1: "constructs t Lvalue \<longleftrightarrow> is_constructible_const_ref t"
    using assms(1,2)
    by (cases "is_convertible t"; cases "is_constructible t")
       (simp_all add: constructs_def selected_Lvalue)
  have 2: "constructs t Rvalue \<longleftrightarrow> is_constructible t"
    using assms
    by (cases "is_convertible t"; cases "is_constructible t"; cases "is_pointer t")
       (simp_all add: constructs_def selected_Rvalue)
  have 3: "(\<exists>c. selected t cat = Some c \<and> takes_rvalue_ref c)
            \<longleftrightarrow> cat = Rvalue \<and> is_constructible t \<and> \<not> is_pointer t"
  proof (cases cat)
    case Lvalue
    then show ?thesis by (simp add: selected_Lvalue)
  next
    case Rvalue
    then show ?thesis
      using assms(1)
      by (cases "is_convertible t"; cases "is_constructible t"; cases "is_pointer t")
         (simp_all add: selected_Rvalue)
  qed
  have 4: "\<forall>c. selected t cat = Some c \<longrightarrow> viable t cat c"
    using selected_viable by blast
  have 5: "\<forall>c. viable t cat c \<longrightarrow> (is_explicit c \<longleftrightarrow> \<not> is_convertible t)"
    by (simp add: all_ctor viable_def)
  have 6: "\<forall>c. viable t cat c \<and> takes_rvalue_ref c \<longrightarrow> \<not> is_pointer t"
  proof (intro allI impI)
    fix c assume "viable t cat c \<and> takes_rvalue_ref c"
    then show "\<not> is_pointer t" by (cases c) (simp_all add: viable_def)
  qed
  have 7: "nn_converting_copy construct other = \<lparr>ptr = construct (ptr other)\<rparr>"
    by (simp add: nn_converting_copy_def operator_const_ref_def)
  have 8: "fst (nn_converting_move construct_mv other) = \<lparr>ptr = fst (construct_mv (ptr other))\<rparr>"
    by (cases "construct_mv (ptr other)") (simp add: nn_converting_move_def)
  from 1 2 3 4 5 6 7 8 show ?thesis by (intro conjI)
qed

theorem converting_ctor_policy_witness:
  "constructs \<lparr>is_constructible = True, is_convertible = False, is_pointer = True,
       is_constructible_const_ref = True\<rparr> Lvalue
   \<and> selected \<lparr>is_constructible = True, is_convertible = False, is_pointer = True,
       is_constructible_const_ref = True\<rparr> Rvalue = Some Explicit_copy
   \<and> nn_converting_copy (\<lambda>p. Unique_ptr (stored p)) \<lparr>ptr = Raw_ptr 4\<rparr> = \<lparr>ptr = Unique_ptr 4\<rparr>
   \<and> \<not> constructs \<lparr>is_constructible = True, is_convertible = True, is_pointer = False,
       is_constructible_const_ref = False\<rparr> Lvalue
   \<and> constructs \<lparr>is_constructible = True, is_convertible = True, is_pointer = False,
       is_constructible_const_ref = False\<rparr> Rvalue
   \<and> selected \<lparr>is_constructible = True, is_convertible = True, is_pointer = False,
       is_constructible_const_ref = False\<rparr> Rvalue = Some Implicit_move
   \<and> fst (nn_converting_move (\<lambda>p. (Unique_ptr (stored p), Unique_ptr 0)) \<lparr>ptr = Unique_ptr 4\<rparr>)
       = \<lparr>ptr = Unique_ptr 4\<rparr>"
proof -
  let ?raw = "\<lparr>is_constructible = True, is_convertible = False, is_pointer = True,
       is_constructible_const_ref = True\<rparr>"
  let ?uniq = "\<lparr>is_constructible = True, is_convertible = True, is_pointer = False,
       is_constructible_const_ref = False\<rparr>"
  have r: "selected ?raw Rvalue = Some Explicit_copy"
    by (simp add: selected_Rvalue)
  have u: "selected ?uniq Rvalue = Some Implicit_move"
    by (simp add: selected_Rvalue)
  have p1: "constructs ?raw Lvalue"
    and p2: "nn_converting_copy (\<lambda>p. Unique_ptr (stored p)) \<lparr>ptr = Raw_ptr 4\<rparr> = \<lparr>ptr = Unique_ptr 4\<rparr>"
    using converting_ctor_policy
      [where t = ?raw and cat = Rvalue and construct = "\<lambda>p. Unique_ptr (stored p)"
         and other = "\<lparr>ptr = Raw_ptr 4\<rparr>"
         and construct_mv = "\<lambda>p. (Unique_ptr (stored p), p)"]
    by simp_all
  have q1: "\<not> constructs ?uniq Lvalue" and q2: "constructs ?uniq Rvalue"
    and q3: "fst (nn_converting_move (\<lambda>p. (Unique_ptr (stored p), Unique_ptr 0)) \<lparr>ptr = Unique_ptr 4\<rparr>)
       = \<lparr>ptr = Unique_ptr 4\<rparr>"
    using converting_ctor_policy
      [where t = ?uniq and cat = Rvalue and construct = "\<lambda>p. p"
         and other = "\<lparr>ptr = Unique_ptr 4\<rparr>"
         and construct_mv = "\<lambda>p. (Unique_ptr (stored p), Unique_ptr 0)"]
    by simp_all
  from p1 r p2 q1 q2 u q3 show ?thesis by (intro conjI)
qed

subsection \<open>Hashing\<close>

text \<open>
  C7. The hash of a handle built from a non-null value \<open>a\<close>, by either checked constructor,
  is the hash the wrapped type gives \<open>a\<close>.
\<close>

theorem hash_equivalence:
  "(nn_ctor to_bool a loc = Inr h \<longrightarrow> hash_nn hash_T h = hash_T a)
   \<and> (fst (nn_ctor_move b loc) = Inr g \<longrightarrow> hash_nn hash_P g = hash_P b)"
  by (auto simp: hash_nn_def as_nullable_def dest: nn_ctor_Inr nn_ctor_move_Inr)

theorem hash_equivalence_witness:
  "nn_ctor std_to_bool (Raw_ptr 9) \<lparr>file_name = ''t.cpp'', line = 3, column = 7\<rparr>
     = Inr \<lparr>ptr = Raw_ptr 9\<rparr>
   \<and> hash_nn (\<lambda>p. word_of_nat (stored p)) \<lparr>ptr = Raw_ptr 9\<rparr> = (9 :: 64 word)
   \<and> fst (nn_ctor_move (Unique_ptr 4) \<lparr>file_name = ''t.cpp'', line = 3, column = 7\<rparr>)
     = Inr \<lparr>ptr = Unique_ptr 4\<rparr>
   \<and> hash_nn (\<lambda>p. word_of_nat (stored p)) \<lparr>ptr = Unique_ptr 4\<rparr> = (4 :: 64 word)"
proof -
  let ?L = "\<lparr>file_name = ''t.cpp'', line = 3, column = 7\<rparr>"
  have a: "nn_ctor std_to_bool (Raw_ptr 9) ?L = Inr \<lparr>ptr = Raw_ptr 9\<rparr>"
    by (simp add: nn_ctor_def check_def std_to_bool_def)
  have b: "fst (nn_ctor_move (Unique_ptr 4) ?L) = Inr \<lparr>ptr = Unique_ptr 4\<rparr>"
    by (simp add: nn_ctor_move_def check_def std_to_bool_def)
  show ?thesis
    using hash_equivalence [of std_to_bool "Raw_ptr 9" ?L "\<lparr>ptr = Raw_ptr 9\<rparr>"
        "\<lambda>p. word_of_nat (stored p) :: 64 word" "Unique_ptr 4" "\<lparr>ptr = Unique_ptr 4\<rparr>"
        "\<lambda>p. word_of_nat (stored p) :: 64 word"] a b
    by simp
qed

subsection \<open>Conversion back and re-wrapping\<close>

text \<open>
  C8. For a handle whose stored value is non-null, converting it to the wrapped type, by
  the conversion operator or by \<open>as_nullable\<close>, by const reference or by move, and passing
  the result to the checked constructor produces a handle, and that handle equals the
  original one under the wrapped type's equality.
\<close>

theorem conversion_faithful:
  assumes "std_to_bool (ptr h)"
  shows "(\<exists>h'. nn_ctor std_to_bool (operator_const_ref h) loc = Inr h' \<and> eq_nn_nn std_eq h' h)
       \<and> (\<exists>h'. nn_ctor std_to_bool (as_nullable h) loc = Inr h' \<and> eq_nn_nn std_eq h' h)
       \<and> (\<exists>h'. fst (nn_ctor_move (fst (operator_rvalue h)) loc) = Inr h' \<and> eq_nn_nn std_eq h' h)
       \<and> (\<exists>h'. fst (nn_ctor_move (fst (as_nullable_rvalue h)) loc) = Inr h'
               \<and> eq_nn_nn std_eq h' h)"
proof -
  have h: "\<lparr>ptr = ptr h\<rparr> = h" by simp
  have refl: "eq_nn_nn std_eq h h" by (simp add: eq_nn_nn_def std_eq_def)
  have c: "nn_ctor std_to_bool (ptr h) loc = Inr h"
    using nn_ctor_ok [of std_to_bool "ptr h" loc] assms h by simp
  have m: "fst (nn_ctor_move (ptr h) loc) = Inr h"
    using nn_ctor_move_ok [OF assms, of loc] h by simp
  show ?thesis
    using c m refl by (simp add: operator_const_ref_def as_nullable_def rvalue_fst)
qed

theorem conversion_faithful_witness:
  "std_to_bool (ptr \<lparr>ptr = Shared_ptr (Some 2) 2\<rparr>)
   \<and> nn_ctor std_to_bool (as_nullable \<lparr>ptr = Shared_ptr (Some 2) 2\<rparr>)
        \<lparr>file_name = ''t.cpp'', line = 4, column = 1\<rparr> = Inr \<lparr>ptr = Shared_ptr (Some 2) 2\<rparr>
   \<and> eq_nn_nn std_eq \<lparr>ptr = Shared_ptr (Some 2) 2\<rparr> \<lparr>ptr = Shared_ptr (Some 2) 2\<rparr>"
proof -
  have a: "std_to_bool (ptr \<lparr>ptr = Shared_ptr (Some 2) 2\<rparr>)"
    by (simp add: std_to_bool_def)
  show ?thesis
    using conversion_faithful [OF a, of "\<lparr>file_name = ''t.cpp'', line = 4, column = 1\<rparr>"] a
    by (auto simp: as_nullable_def dest: nn_ctor_Inr)
qed

subsection \<open>The raw pointee accessor\<close>

text \<open>
  C9, as stated, fails for handles over raw pointers: \<open>get()\<close> forwards to the member
  \<open>get()\<close> of the wrapped value, which a raw pointer does not have, so on a valid
  \<open>nn<T*>\<close> the call yields no address.
\<close>

theorem get_on_raw_pointer_handle:
  "nn_ctor std_to_bool (Raw_ptr 1) \<lparr>file_name = ''t.cpp'', line = 7, column = 4\<rparr>
     = Inr \<lparr>ptr = Raw_ptr 1\<rparr>
   \<and> get \<lparr>ptr = Raw_ptr 1\<rparr> = None"
  by (simp add: nn_ctor_def check_def std_to_bool_def get_def)

text \<open>
  C9, amended. For a handle with a non-null stored value over a \<open>unique_ptr\<close> or a
  \<open>shared_ptr\<close>, \<open>get()\<close> returns the stored pointee address, which is not null; it is a
  const member that returns no updated handle.
\<close>

theorem get_returns_pointee_address:
  assumes "std_to_bool (ptr h)" and "ptr h = Unique_ptr a \<or> ptr h = Shared_ptr c a"
  shows "get h = Some a \<and> a \<noteq> 0 \<and> stored (ptr h) = a"
  using assms by (auto simp: get_def std_to_bool_def)

theorem get_returns_pointee_address_witness:
  "std_to_bool (ptr \<lparr>ptr = Unique_ptr 6\<rparr>) \<and> get \<lparr>ptr = Unique_ptr 6\<rparr> = Some 6"
proof -
  have a: "std_to_bool (ptr \<lparr>ptr = Unique_ptr 6\<rparr>)" by (simp add: std_to_bool_def)
  have b: "ptr \<lparr>ptr = Unique_ptr 6\<rparr> = Unique_ptr 6 \<or> ptr \<lparr>ptr = Unique_ptr 6\<rparr> = Shared_ptr None 6"
    by simp
  show ?thesis using get_returns_pointee_address [OF a b] a by simp
qed

end
